theory Spec2Isabelle
  imports Main
begin

section \<open>Data model of \<^verbatim>\<open>cat/routes/websocket.py\<close>\<close>

text \<open>
  A WebSocket object is known by its identity, a number. Python dictionaries accept any
  hashable key, and the module looks \<^verbatim>\<open>active_connections\<close> up both with user ids
  (strings) and with WebSocket objects (lines 66, 77, 105, 112, 140 and 147 pass a
  WebSocket where \<^verbatim>\<open>user_id\<close> is expected), so a key is either of the two. A string
  never equals a WebSocket object.
\<close>

type_synonym ws = nat

datatype key = KStr string | KWs ws

datatype json = JStr string | JObj "(string \<times> json) list"

text \<open>
  The exceptions that the module raises or handles. \<open>OtherError name description\<close> is
  any other exception class, as the processing agent may raise: its class name and its
  \<^verbatim>\<open>str\<close>. \<open>TransportError\<close> is the failure of a write on a closed transport.
\<close>

datatype exc =
    KeyError key
  | AttributeError
  | WebSocketDisconnect
  | CancelledError
  | TransportError
  | OtherError string string

text \<open>
  \<^verbatim>\<open>except Exception\<close> catches every class but those deriving from
  \<^verbatim>\<open>BaseException\<close> alone; of the classes here that is \<^verbatim>\<open>CancelledError\<close>, the
  exception by which asyncio cancels a task.
\<close>

fun is_Exception :: "exc \<Rightarrow> bool" where
  "is_Exception CancelledError = False"
| "is_Exception _ = True"

fun exc_name :: "exc \<Rightarrow> string" where
  "exc_name (KeyError k) = ''KeyError''"
| "exc_name AttributeError = ''AttributeError''"
| "exc_name WebSocketDisconnect = ''WebSocketDisconnect''"
| "exc_name CancelledError = ''CancelledError''"
| "exc_name TransportError = ''TransportError''"
| "exc_name (OtherError n d) = n"

text \<open>
  \<^verbatim>\<open>str(e)\<close>. For a \<^verbatim>\<open>KeyError\<close> it is the \<^verbatim>\<open>repr\<close> of the key; the \<^verbatim>\<open>repr\<close> of
  a WebSocket object holds a memory address, left out here. The texts of the library's
  own exceptions are left empty.
\<close>

fun key_repr :: "key \<Rightarrow> string" where
  "key_repr (KStr u) = [CHR 39] @ u @ [CHR 39]"
| "key_repr (KWs w) = ''<WebSocket object>''"

fun exc_str :: "exc \<Rightarrow> string" where
  "exc_str (KeyError k) = key_repr k"
| "exc_str (OtherError n d) = d"
| "exc_str _ = []"

datatype log_entry = Info string | Error exc | Traceback exc

text \<open>
  Modelled from the spec: the transport (FastAPI's \<^verbatim>\<open>WebSocket\<close>, not part of the
  repository). Section 6: "accept handshake; read() yields one decoded inbound message or
  fails when closed; write(message) encodes and sends one message, failing if the
  transport is closed." \<open>inbox\<close> holds the messages the client sends before it goes away,
  \<open>outbox\<close> the messages written to the client, oldest first.
\<close>

record transport =
  accepted :: bool
  is_closed :: bool
  inbox :: "json list"
  outbox :: "json list"

text \<open>
  The state of the process: \<^verbatim>\<open>manager.active_connections\<close> and \<^verbatim>\<open>ccat.ws_messages\<close>
  are Python dictionaries, which keep insertion order (\<^verbatim>\<open>broadcast\<close> iterates over
  \<^verbatim>\<open>values()\<close>), so they are association lists. \<^verbatim>\<open>active_connections\<close> is declared
  \<^verbatim>\<open>Dict[str, WebSocket]\<close>: its values are WebSocket objects. A notification queue is the
  list of its pending items, oldest first.
\<close>

record state =
  active_connections :: "(key \<times> ws) list"
  ws_messages :: "(key \<times> json list) list"
  sockets :: "ws \<Rightarrow> transport"
  log_lines :: "log_entry list"

text \<open>
  The processing agent \<^verbatim>\<open>ccat(user_message)\<close>, an external callable: it returns a reply
  or raises.
\<close>

type_synonym agent = "json \<Rightarrow> exc + json"

subsection \<open>Dictionary operations\<close>

text \<open>\<^verbatim>\<open>del d[k]\<close> on a key that is present; the callers raise \<^verbatim>\<open>KeyError\<close> on an absent one.\<close>

definition dict_del :: "'k \<Rightarrow> ('k \<times> 'v) list \<Rightarrow> ('k \<times> 'v) list" where
  "dict_del k d = filter (\<lambda>p. fst p \<noteq> k) d"

text \<open>The value under an existing key replaced in place (a queue object that was mutated).\<close>

definition dict_put :: "'k \<Rightarrow> 'v \<Rightarrow> ('k \<times> 'v) list \<Rightarrow> ('k \<times> 'v) list" where
  "dict_put k v d = map (\<lambda>p. if fst p = k then (k, v) else p) d"

subsection \<open>Transport operations\<close>

text \<open>Modelled from the spec: \<^verbatim>\<open>websocket.accept()\<close>, the accept handshake.\<close>

definition accept :: "state \<Rightarrow> ws \<Rightarrow> state" where
  "accept s w = s\<lparr>sockets := (sockets s)(w := (sockets s w)\<lparr>accepted := True\<rparr>)\<rparr>"

text \<open>
  Modelled from the spec: \<^verbatim>\<open>websocket.send_json(message)\<close>, the transport's write,
  "failing if the transport is closed".
\<close>

definition send_json :: "state \<Rightarrow> ws \<Rightarrow> json \<Rightarrow> state \<times> (exc + unit)" where
  "send_json s w m =
     (if is_closed (sockets s w) then (s, Inl TransportError)
      else (s\<lparr>sockets := (sockets s)(w := (sockets s w)\<lparr>outbox := outbox (sockets s w) @ [m]\<rparr>)\<rparr>,
            Inr ()))"

text \<open>
  Modelled from the spec: \<^verbatim>\<open>websocket.receive_json()\<close>, the transport's read. It
  "yields one decoded inbound message or fails when closed"; the failure is the
  transport-closed signal \<^verbatim>\<open>WebSocketDisconnect\<close>, also raised once the client has sent
  all it sends.
\<close>

definition receive_json :: "state \<Rightarrow> ws \<Rightarrow> state \<times> (exc + json)" where
  "receive_json s w =
     (if is_closed (sockets s w) then (s, Inl WebSocketDisconnect)
      else (case inbox (sockets s w) of
              [] \<Rightarrow> (s, Inl WebSocketDisconnect)
            | m # ms \<Rightarrow>
                (s\<lparr>sockets := (sockets s)(w := (sockets s w)\<lparr>inbox := ms\<rparr>)\<rparr>, Inr m)))"

definition log_info :: "state \<Rightarrow> string \<Rightarrow> state" where
  "log_info s t = s\<lparr>log_lines := log_lines s @ [Info t]\<rparr>"

text \<open>\<^verbatim>\<open>log.error(e)\<close> followed by \<^verbatim>\<open>traceback.print_exc()\<close>.\<close>

definition log_error :: "state \<Rightarrow> exc \<Rightarrow> state" where
  "log_error s e = s\<lparr>log_lines := log_lines s @ [Error e, Traceback e]\<rparr>"

section \<open>ConnectionManager\<close>

text \<open>
  \<^verbatim>\<open>connect\<close> (lines 23 to 28): the accept is awaited first; then
  \<^verbatim>\<open>self.active_connections[user_id].append(websocket)\<close> looks the key up, which raises
  \<^verbatim>\<open>KeyError\<close> on an absent key, and calls \<^verbatim>\<open>append\<close> on the value found, a WebSocket,
  which has no such attribute. No statement of \<^verbatim>\<open>connect\<close> stores into the dictionary.
\<close>

definition connect :: "state \<Rightarrow> ws \<Rightarrow> key \<Rightarrow> state \<times> (exc + unit)" where
  "connect s websocket user_id =
     (let s1 = accept s websocket in
      case map_of (active_connections s1) user_id of
        None \<Rightarrow> (s1, Inl (KeyError user_id))
      | Some w \<Rightarrow> (s1, Inl AttributeError))"

text \<open>
  \<^verbatim>\<open>disconnect\<close> (lines 30 to 35): two \<^verbatim>\<open>del\<close> statements in a row, neither guarded.
\<close>

definition disconnect :: "state \<Rightarrow> key \<Rightarrow> state \<times> (exc + unit)" where
  "disconnect s user_id =
     (case map_of (active_connections s) user_id of
        None \<Rightarrow> (s, Inl (KeyError user_id))
      | Some w \<Rightarrow>
          (let s1 = s\<lparr>active_connections := dict_del user_id (active_connections s)\<rparr> in
           case map_of (ws_messages s1) user_id of
             None \<Rightarrow> (s1, Inl (KeyError user_id))
           | Some q \<Rightarrow> (s1\<lparr>ws_messages := dict_del user_id (ws_messages s1)\<rparr>, Inr ())))"

text \<open>\<^verbatim>\<open>send_personal_message\<close> (lines 37 to 41).\<close>

definition send_personal_message :: "state \<Rightarrow> json \<Rightarrow> key \<Rightarrow> state \<times> (exc + unit)" where
  "send_personal_message s message user_id =
     (case map_of (active_connections s) user_id of
        None \<Rightarrow> (s, Inl (KeyError user_id))
      | Some w \<Rightarrow> send_json s w message)"

text \<open>
  \<^verbatim>\<open>broadcast\<close> (lines 43 to 48): a \<^verbatim>\<open>for\<close> loop over the values in insertion order;
  an exception of a write leaves the loop.
\<close>

fun broadcast_loop :: "ws list \<Rightarrow> json \<Rightarrow> state \<Rightarrow> state \<times> (exc + unit)" where
  "broadcast_loop [] message s = (s, Inr ())"
| "broadcast_loop (connection # rest) message s =
     (case send_json s connection message of
        (s1, Inl e) \<Rightarrow> (s1, Inl e)
      | (s1, Inr u) \<Rightarrow> broadcast_loop rest message s1)"

definition broadcast :: "state \<Rightarrow> json \<Rightarrow> state \<times> (exc + unit)" where
  "broadcast s message = broadcast_loop (map snd (active_connections s)) message s"

section \<open>The two loops of a connection\<close>

text \<open>
  \<^verbatim>\<open>receive_message\<close> (lines 54 to 66). The connection is looked up once under
  \<^verbatim>\<open>user_id\<close>; each round reads one message, awaits the agent's reply and calls
  \<^verbatim>\<open>manager.send_personal_message(cat_message, ws)\<close>, where the WebSocket \<^verbatim>\<open>ws\<close> stands
  in the place of \<^verbatim>\<open>user_id\<close>. The loop is \<^verbatim>\<open>while True\<close>: it ends by an exception
  only, which is its result.
\<close>

function receive_message_loop :: "agent \<Rightarrow> ws \<Rightarrow> state \<Rightarrow> state \<times> exc" where
  "receive_message_loop ccat ws s =
     (case receive_json s ws of
        (s1, Inl e) \<Rightarrow> (s1, e)
      | (s1, Inr user_message) \<Rightarrow>
          (case ccat user_message of
             Inl e \<Rightarrow> (s1, e)
           | Inr cat_message \<Rightarrow>
               (case send_personal_message s1 cat_message (KWs ws) of
                  (s2, Inl e) \<Rightarrow> (s2, e)
                | (s2, Inr u) \<Rightarrow> receive_message_loop ccat ws s2)))"
  by pat_completeness auto

lemma receive_json_inbox:
  "receive_json s w = (s1, Inr m) \<Longrightarrow> inbox (sockets s w) = m # inbox (sockets s1 w)"
  by (auto simp: receive_json_def split: if_splits list.splits)

lemma send_json_inbox: "inbox (sockets (fst (send_json s w m)) v) = inbox (sockets s v)"
  by (simp add: send_json_def)

lemma send_personal_message_inbox:
  "inbox (sockets (fst (send_personal_message s m k)) v) = inbox (sockets s v)"
  by (simp add: send_personal_message_def send_json_inbox split: option.splits)

termination receive_message_loop
proof (relation "measure (\<lambda>(ccat, ws, s). length (inbox (sockets s ws)))")
  show "wf (measure (\<lambda>(ccat, ws, s). length (inbox (sockets s ws))))"
    by simp
next
  fix ccat :: agent and ws s s1 r user_message cat_message s2 r2
  assume rd: "(s1, r) = receive_json s ws" "r = Inr user_message"
    and sd: "(s2, r2) = send_personal_message s1 cat_message (KWs ws)"
  from rd have "inbox (sockets s ws) = user_message # inbox (sockets s1 ws)"
    by (simp add: receive_json_inbox)
  moreover from sd have "inbox (sockets s2 ws) = inbox (sockets s1 ws)"
    using send_personal_message_inbox [of s1 cat_message "KWs ws" ws] by (metis fst_conv)
  ultimately show "((ccat, ws, s2), (ccat, ws, s)) \<in> measure (\<lambda>(ccat, ws, s). length (inbox (sockets s ws)))"
    by simp
qed

declare receive_message_loop.simps [simp del]

definition receive_message :: "agent \<Rightarrow> state \<Rightarrow> key \<Rightarrow> state \<times> exc" where
  "receive_message ccat s user_id =
     (case map_of (active_connections s) user_id of
        None \<Rightarrow> (s, KeyError user_id)
      | Some ws \<Rightarrow> receive_message_loop ccat ws s)"

text \<open>
  How a task that runs \<^verbatim>\<open>check_messages\<close> ends: by an exception, or suspended for good
  in \<^verbatim>\<open>get()\<close> on a queue that stays empty.
\<close>

datatype loop_end = Raised exc | Blocked

text \<open>
  \<^verbatim>\<open>check_messages\<close> (lines 69 to 77). Each round takes the oldest notification out of
  \<^verbatim>\<open>ccat.ws_messages[user_id]\<close>, then evaluates \<^verbatim>\<open>manager.active_connections[user_id]\<close>
  and passes the WebSocket found in the place of \<^verbatim>\<open>user_id\<close>.
\<close>

function check_messages :: "state \<Rightarrow> key \<Rightarrow> state \<times> loop_end" where
  "check_messages s user_id =
     (case map_of (ws_messages s) user_id of
        None \<Rightarrow> (s, Raised (KeyError user_id))
      | Some [] \<Rightarrow> (s, Blocked)
      | Some (notification # q) \<Rightarrow>
          (let s1 = s\<lparr>ws_messages := dict_put user_id q (ws_messages s)\<rparr> in
           case map_of (active_connections s1) user_id of
             None \<Rightarrow> (s1, Raised (KeyError user_id))
           | Some w \<Rightarrow>
               (case send_personal_message s1 notification (KWs w) of
                  (s2, Inl e) \<Rightarrow> (s2, Raised e)
                | (s2, Inr u) \<Rightarrow> check_messages s2 user_id)))"
  by pat_completeness auto

lemma map_of_dict_put:
  "map_of (dict_put k v d) k' = (if k' = k \<and> map_of d k \<noteq> None then Some v else map_of d k')"
  by (induction d) (auto simp: dict_put_def)

lemma map_of_dict_del: "map_of (dict_del k d) k' = (if k' = k then None else map_of d k')"
  by (induction d) (auto simp: dict_del_def)

lemma send_json_ws_messages: "ws_messages (fst (send_json s w m)) = ws_messages s"
  by (simp add: send_json_def)

lemma send_personal_message_ws_messages:
  "ws_messages (fst (send_personal_message s m k)) = ws_messages s"
  by (simp add: send_personal_message_def send_json_ws_messages split: option.splits)

definition queue_length :: "state \<Rightarrow> key \<Rightarrow> nat" where
  "queue_length s user_id = (case map_of (ws_messages s) user_id of None \<Rightarrow> 0 | Some q \<Rightarrow> length q)"

termination check_messages
proof (relation "measure (\<lambda>(s, user_id). queue_length s user_id)")
  show "wf (measure (\<lambda>(s, user_id). queue_length s user_id))"
    by simp
next
  fix s :: state and user_id q0 notification q s1 w s2 r
  assume q: "map_of (ws_messages s) user_id = Some q0" "q0 = notification # q"
    and s1: "s1 = s\<lparr>ws_messages := dict_put user_id q (ws_messages s)\<rparr>"
    and sd: "(s2, r) = send_personal_message s1 notification (KWs w)"
  from sd have "ws_messages s2 = ws_messages s1"
    using send_personal_message_ws_messages [of s1 notification "KWs w"] by (metis fst_conv)
  with q s1 have "queue_length s2 user_id = length q" "queue_length s user_id = Suc (length q)"
    by (simp_all add: queue_length_def map_of_dict_put)
  then show "((s2, user_id), (s, user_id)) \<in> measure (\<lambda>(s, user_id). queue_length s user_id)"
    by simp
qed

declare check_messages.simps [simp del]

section \<open>The endpoint\<close>

text \<open>
  The message of the \<^verbatim>\<open>except Exception\<close> handler (lines 105 to 109).
\<close>

definition error_message :: "exc \<Rightarrow> json" where
  "error_message e =
     JObj [(''type'', JStr ''error''), (''name'', JStr (exc_name e)),
           (''description'', JStr (exc_str e))]"

text \<open>
  The \<^verbatim>\<open>except\<close> clauses of \<^verbatim>\<open>websocket_endpoint\<close> (lines 98 to 109 and 133 to
  144), from the point where \<^verbatim>\<open>asyncio.gather\<close> has raised \<open>e\<close> in state \<open>s\<close>. Both
  loops are \<^verbatim>\<open>while True\<close>, so \<^verbatim>\<open>gather\<close> never returns a value.
  \<^verbatim>\<open>WebSocketDisconnect\<close> is logged; any other \<^verbatim>\<open>Exception\<close> is logged and reported
  by \<^verbatim>\<open>send_personal_message(..., websocket)\<close>, unguarded; an exception that is no
  \<^verbatim>\<open>Exception\<close> stays pending.
\<close>

definition websocket_endpoint_except :: "state \<Rightarrow> ws \<Rightarrow> exc \<Rightarrow> state \<times> (exc + unit)" where
  "websocket_endpoint_except s websocket e =
     (if e = WebSocketDisconnect then (log_info s ''WebSocket connection closed'', Inr ())
      else if is_Exception e then
        send_personal_message (log_error s e) (error_message e) (KWs websocket)
      else (s, Inl e))"

text \<open>
  The whole \<^verbatim>\<open>try\<close> statement (lines 92 to 112 and 127 to 147): after the \<^verbatim>\<open>except\<close>
  clauses the \<^verbatim>\<open>finally\<close> clause calls \<^verbatim>\<open>manager.disconnect(ccat, websocket)\<close>. As in
  Python, an exception of the \<^verbatim>\<open>finally\<close> clause replaces a pending one; otherwise the
  pending one is raised again.
\<close>

definition websocket_endpoint_try :: "state \<Rightarrow> ws \<Rightarrow> exc \<Rightarrow> state \<times> (exc + unit)" where
  "websocket_endpoint_try s websocket e =
     (case websocket_endpoint_except s websocket e of
        (s1, r1) \<Rightarrow>
          (case disconnect s1 (KWs websocket) of
             (s2, Inl e2) \<Rightarrow> (s2, Inl e2)
           | (s2, Inr u) \<Rightarrow> (s2, r1)))"

text \<open>
  \<^verbatim>\<open>websocket_endpoint\<close> (lines 80 to 112 with the default \<^verbatim>\<open>user_id\<close>, lines 115 to
  147 with the one of the path). \<^verbatim>\<open>manager.connect\<close> is awaited before the \<^verbatim>\<open>try\<close>:
  its exception leaves the endpoint at once. \<open>gather\<close> stands for
  \<^verbatim>\<open>asyncio.gather(receive_message(...), check_messages(...))\<close>, the scheduler's run of
  the two loops: the state it leaves and the exception it raises.
\<close>

definition websocket_endpoint ::
  "(state \<Rightarrow> state \<times> exc) \<Rightarrow> state \<Rightarrow> ws \<Rightarrow> key \<Rightarrow> state \<times> (exc + unit)" where
  "websocket_endpoint gather s websocket user_id =
     (case connect s websocket user_id of
        (s1, Inl e) \<Rightarrow> (s1, Inl e)
      | (s1, Inr u) \<Rightarrow> (case gather s1 of (s2, e) \<Rightarrow> websocket_endpoint_try s2 websocket e))"

section \<open>Example states\<close>

text \<open>
  A transport that is open, with the messages \<open>ms\<close> on their way from the client.
\<close>

definition open_socket :: "json list \<Rightarrow> transport" where
  "open_socket ms = \<lparr>accepted = False, is_closed = False, inbox = ms, outbox = []\<rparr>"

definition closed_socket :: transport where
  "closed_socket = \<lparr>accepted = True, is_closed = True, inbox = [], outbox = []\<rparr>"

definition hi :: json where
  "hi = JObj [(''text'', JStr ''hi'')]"

definition ping :: json where
  "ping = JObj [(''type'', JStr ''ping'')]"

text \<open>
  The state of a fresh process: \<^verbatim>\<open>ConnectionManager.__init__\<close> leaves the registry
  empty; the collaborator holds a queue for the default identity with two notifications;
  the client of every socket is about to send \<open>hi\<close> twice.
\<close>

definition state_fresh :: state where
  "state_fresh =
     \<lparr>active_connections = [],
      ws_messages = [(KStr ''user'', [ping, hi])],
      sockets = (\<lambda>w. open_socket [hi, ping]),
      log_lines = []\<rparr>"

text \<open>
  The state the docstring of \<^verbatim>\<open>connect\<close> describes after a client has connected as
  the default identity: WebSocket 0 is registered under \<^verbatim>\<open>"user"\<close>.
\<close>

definition state_user :: state where
  "state_user = state_fresh\<lparr>active_connections := [(KStr ''user'', 0)]\<rparr>"

text \<open>
  Three registered connections, the second of which has a closed transport.
\<close>

definition state_three :: state where
  "state_three =
     \<lparr>active_connections = [(KStr ''a'', 0), (KStr ''b'', 1), (KStr ''c'', 2)],
      ws_messages = [],
      sockets = (\<lambda>w. if w = 1 then closed_socket else open_socket []),
      log_lines = []\<rparr>"

text \<open>The agent of the examples answers every message with the same reply.\<close>

definition hello_agent :: agent where
  "hello_agent m = Inr (JObj [(''text'', JStr ''hello'')])"

text \<open>
  A registry keyed by the WebSocket object itself, as the calls of lines 66, 77, 105 and
  112 address it; the transport of every socket is closed.
\<close>

definition state_by_socket :: state where
  "state_by_socket =
     \<lparr>active_connections = [(KWs 0, 0)],
      ws_messages = [(KWs 0, [])],
      sockets = (\<lambda>w. closed_socket),
      log_lines = []\<rparr>"

text \<open>
  The registry as it is declared, \<^verbatim>\<open>Dict[str, WebSocket]\<close>: every key is a user id.
\<close>

definition str_keyed :: "(key \<times> 'v) list \<Rightarrow> bool" where
  "str_keyed d = list_all (\<lambda>p. case fst p of KStr u \<Rightarrow> True | KWs w \<Rightarrow> False) d"

section \<open>Frame lemmas\<close>

lemma str_keyed_lookup: "str_keyed d \<Longrightarrow> map_of d (KWs w) = None"
  by (induction d) (auto simp: str_keyed_def split: key.splits)

lemma dict_del_absent: "map_of d k = None \<Longrightarrow> dict_del k d = d"
  by (induction d) (auto simp: dict_del_def split: if_splits)

lemma send_json_registry: "active_connections (fst (send_json s w m)) = active_connections s"
  by (simp add: send_json_def)

lemma send_json_closed: "is_closed (sockets (fst (send_json s w m)) v) = is_closed (sockets s v)"
  by (simp add: send_json_def)

lemma send_json_result:
  "snd (send_json s w m) = (if is_closed (sockets s w) then Inl TransportError else Inr ())"
  by (simp add: send_json_def)

lemma send_json_outbox:
  "outbox (sockets (fst (send_json s w m)) v) =
     (if \<not> is_closed (sockets s w) \<and> v = w then outbox (sockets s v) @ [m]
      else outbox (sockets s v))"
  by (simp add: send_json_def)

lemma send_personal_message_registry:
  "active_connections (fst (send_personal_message s m k)) = active_connections s"
  by (simp add: send_personal_message_def send_json_registry split: option.splits)

lemma send_personal_message_absent:
  "map_of (active_connections s) k = None \<Longrightarrow>
   send_personal_message s m k = (s, Inl (KeyError k))"
  by (simp add: send_personal_message_def)

lemma except_registry:
  "active_connections (fst (websocket_endpoint_except s w e)) = active_connections s"
  by (simp add: websocket_endpoint_except_def log_info_def log_error_def
      send_personal_message_registry)

lemma except_ws_messages:
  "ws_messages (fst (websocket_endpoint_except s w e)) = ws_messages s"
  by (simp add: websocket_endpoint_except_def log_info_def log_error_def
      send_personal_message_ws_messages)

lemma disconnect_sockets: "sockets (fst (disconnect s k)) = sockets s"
  by (simp add: disconnect_def Let_def split: option.splits)

lemma disconnect_result:
  "snd (disconnect s k) =
     (if map_of (active_connections s) k = None \<or> map_of (ws_messages s) k = None
      then Inl (KeyError k) else Inr ())"
  by (auto simp: disconnect_def Let_def split: option.splits)

lemma disconnect_registry:
  "active_connections (fst (disconnect s k)) = dict_del k (active_connections s)"
  by (simp add: disconnect_def Let_def dict_del_absent split: option.splits)

lemma disconnect_queues:
  "ws_messages (fst (disconnect s k)) =
     (if map_of (active_connections s) k = None then ws_messages s
      else dict_del k (ws_messages s))"
  by (auto simp: disconnect_def Let_def dict_del_absent split: option.splits)

lemma try_result:
  "snd (websocket_endpoint_try s w e) =
     (case snd (disconnect (fst (websocket_endpoint_except s w e)) (KWs w)) of
        Inl e2 \<Rightarrow> Inl e2
      | Inr u \<Rightarrow> snd (websocket_endpoint_except s w e))"
  by (simp add: websocket_endpoint_try_def split: prod.splits sum.splits)

lemma try_state:
  "fst (websocket_endpoint_try s w e) =
     fst (disconnect (fst (websocket_endpoint_except s w e)) (KWs w))"
  by (simp add: websocket_endpoint_try_def split: prod.splits sum.splits)

section \<open>Registration\<close>

text \<open>
  C6, at the failing input. A client connects as the default identity to a fresh process,
  whose registry is empty: \<^verbatim>\<open>connect\<close> accepts the transport, raises
  \<^verbatim>\<open>KeyError('user')\<close> and leaves the registry empty, where the claim (and the docstring
  of \<^verbatim>\<open>connect\<close>) say that the connection is added to the registry.
\<close>

theorem connect_fresh_registers_nothing:
  "snd (connect state_fresh 0 (KStr ''user'')) = Inl (KeyError (KStr ''user'')) \<and>
   active_connections (fst (connect state_fresh 0 (KStr ''user''))) = [] \<and>
   accepted (sockets (fst (connect state_fresh 0 (KStr ''user''))) 0)"
  by (simp add: connect_def accept_def state_fresh_def)

text \<open>
  C10. \<^verbatim>\<open>connect\<close> awaits the accept before it touches the registry: the state it
  leaves is the state after the accept, whatever the registration step does. The
  registration step raises (\<^verbatim>\<open>KeyError\<close> on an absent key, \<^verbatim>\<open>AttributeError\<close> on a
  present one); the registry is then as it was, the connection is accepted, and
  \<^verbatim>\<open>connect\<close> has neither closed it nor undone the accept.
\<close>

theorem connect_accepts_then_fails:
  "fst (connect s websocket user_id) = accept s websocket \<and>
   active_connections (fst (connect s websocket user_id)) = active_connections s \<and>
   accepted (sockets (fst (connect s websocket user_id)) websocket) \<and>
   is_closed (sockets (fst (connect s websocket user_id)) websocket) =
     is_closed (sockets s websocket) \<and>
   snd (connect s websocket user_id) =
     (case map_of (active_connections s) user_id of
        None \<Rightarrow> Inl (KeyError user_id)
      | Some w \<Rightarrow> Inl AttributeError)"
  by (simp add: connect_def accept_def Let_def split: option.splits)

section \<open>Unicast\<close>

text \<open>
  C5. \<^verbatim>\<open>send_personal_message\<close> to an identity that has no registry entry raises
  \<^verbatim>\<open>KeyError\<close> (the code's NotConnected) and writes nothing; that is so in particular in
  the state that \<^verbatim>\<open>disconnect\<close> of that identity leaves, whether \<^verbatim>\<open>disconnect\<close> itself
  returned or raised.
\<close>

theorem unicast_not_connected:
  assumes "map_of (active_connections s) user_id = None \<or> (\<exists>s0. s = fst (disconnect s0 user_id))"
  shows "send_personal_message s message user_id = (s, Inl (KeyError user_id))"
proof -
  have "map_of (active_connections s) user_id = None"
    using assms by (auto simp: disconnect_registry map_of_dict_del)
  then show ?thesis
    by (rule send_personal_message_absent)
qed

theorem unicast_not_connected_witness:
  "snd (send_personal_message state_user hi (KStr ''user'')) = Inr () \<and>
   send_personal_message (fst (disconnect state_user (KStr ''user''))) hi (KStr ''user'') =
     (fst (disconnect state_user (KStr ''user'')), Inl (KeyError (KStr ''user'')))"
proof -
  have "snd (send_personal_message state_user hi (KStr ''user'')) = Inr ()"
    by (simp add: send_personal_message_def send_json_def state_user_def state_fresh_def
        open_socket_def)
  moreover have "\<exists>s0. fst (disconnect state_user (KStr ''user'')) = fst (disconnect s0 (KStr ''user''))"
    by blast
  ultimately show ?thesis
    using unicast_not_connected [of "fst (disconnect state_user (KStr ''user''))" "KStr ''user''" hi]
    by simp
qed

section \<open>Broadcast\<close>

lemma broadcast_loop_outbox:
  "outbox (sockets (fst (broadcast_loop cs m s)) w) =
     outbox (sockets s w) @
     replicate (count_list (takeWhile (\<lambda>c. \<not> is_closed (sockets s c)) cs) w) m"
proof (induction cs arbitrary: s)
  case Nil
  show ?case by simp
next
  case (Cons c cs)
  show ?case
  proof (cases "is_closed (sockets s c)")
    case True
    then show ?thesis by (simp add: send_json_def)
  next
    case False
    let ?s1 = "fst (send_json s c m)"
    have run: "broadcast_loop (c # cs) m s = broadcast_loop cs m ?s1"
      using False by (simp add: send_json_def)
    have same: "(\<lambda>c. \<not> is_closed (sockets ?s1 c)) = (\<lambda>c. \<not> is_closed (sockets s c))"
      by (simp add: send_json_closed)
    have "outbox (sockets ?s1 w) = outbox (sockets s w) @ (if w = c then [m] else [])"
      using False by (simp add: send_json_outbox)
    then show ?thesis
      using False Cons.IH [of ?s1] unfolding run by (simp add: same replicate_app_Cons_same)
  qed
qed

lemma broadcast_loop_result:
  "snd (broadcast_loop cs m s) =
     (if list_all (\<lambda>c. \<not> is_closed (sockets s c)) cs then Inr () else Inl TransportError)"
proof (induction cs arbitrary: s)
  case Nil
  show ?case by simp
next
  case (Cons c cs)
  show ?case
  proof (cases "is_closed (sockets s c)")
    case True
    then show ?thesis by (simp add: send_json_def)
  next
    case False
    let ?s1 = "fst (send_json s c m)"
    have run: "broadcast_loop (c # cs) m s = broadcast_loop cs m ?s1"
      using False by (simp add: send_json_def)
    have same: "(\<lambda>c. \<not> is_closed (sockets ?s1 c)) = (\<lambda>c. \<not> is_closed (sockets s c))"
      by (simp add: send_json_closed)
    show ?thesis
      using False Cons.IH [of ?s1] unfolding run by (simp add: same)
  qed
qed

text \<open>
  C7, as the claim states it, fails: of three registered connections the second has a
  closed transport; \<^verbatim>\<open>broadcast\<close> delivers to the first, raises at the second and never
  writes to the third.
\<close>

theorem broadcast_aborts_counterexample:
  "outbox (sockets (fst (broadcast state_three hi)) 0) = [hi] \<and>
   outbox (sockets (fst (broadcast state_three hi)) 2) = [] \<and>
   snd (broadcast state_three hi) = Inl TransportError"
  by (simp add: broadcast_def state_three_def send_json_def open_socket_def closed_socket_def)

text \<open>
  C7, amended. \<^verbatim>\<open>broadcast\<close> writes the message to the registered connections in
  registry order and stops at the first whose write fails, raising that failure: a
  connection receives the message once for each of its registry entries before the first
  failing one, and nothing otherwise. It returns normally exactly when no write fails,
  and then every registered connection has received the message.
\<close>

theorem broadcast_until_first_failure:
  "outbox (sockets (fst (broadcast s message)) w) =
     outbox (sockets s w) @
     replicate
       (count_list
          (takeWhile (\<lambda>c. \<not> is_closed (sockets s c)) (map snd (active_connections s))) w)
       message \<and>
   snd (broadcast s message) =
     (if list_all (\<lambda>c. \<not> is_closed (sockets s c)) (map snd (active_connections s))
      then Inr () else Inl TransportError)"
  by (simp add: broadcast_def broadcast_loop_outbox broadcast_loop_result)

section \<open>Teardown\<close>

text \<open>
  C8, as the claim states it, fails. \<^verbatim>\<open>disconnect\<close> of an identity with no registry
  entry raises \<^verbatim>\<open>KeyError\<close>; so does \<^verbatim>\<open>disconnect\<close> of a registered identity whose
  queue is missing, after it has removed the registry entry; and the \<^verbatim>\<open>finally\<close> clause
  passes the exception of its \<^verbatim>\<open>disconnect\<close> on to the caller of the endpoint, here after
  a clean disconnect of the client.
\<close>

theorem teardown_raises_counterexample:
  "snd (disconnect state_fresh (KStr ''user'')) = Inl (KeyError (KStr ''user'')) \<and>
   snd (disconnect (state_user\<lparr>ws_messages := []\<rparr>) (KStr ''user'')) =
     Inl (KeyError (KStr ''user'')) \<and>
   active_connections (fst (disconnect (state_user\<lparr>ws_messages := []\<rparr>) (KStr ''user''))) = [] \<and>
   snd (websocket_endpoint_try state_by_socket 0 WebSocketDisconnect) = Inr () \<and>
   snd (websocket_endpoint_try (state_by_socket\<lparr>ws_messages := []\<rparr>) 0 WebSocketDisconnect) =
     Inl (KeyError (KWs 0))"
  by (simp add: disconnect_def state_fresh_def state_user_def state_by_socket_def dict_del_def
      websocket_endpoint_try_def websocket_endpoint_except_def log_info_def)

text \<open>
  C8, amended. The teardown is not guarded. \<^verbatim>\<open>disconnect\<close> returns normally only when
  the key it is given has both a registry entry and a notification queue, and then both
  are removed; otherwise it raises \<^verbatim>\<open>KeyError\<close> to its caller: with no registry entry
  nothing is removed, with a registry entry and no queue the registry entry is removed.
  It logs nothing. An exception of the \<^verbatim>\<open>disconnect\<close> in the \<^verbatim>\<open>finally\<close> clause is
  raised out of the endpoint's \<^verbatim>\<open>try\<close> statement; when it returns, the outcome is that
  of the \<^verbatim>\<open>except\<close> clauses.
\<close>

theorem teardown_raises_unless_both_present:
  "snd (disconnect s k) =
     (if map_of (active_connections s) k = None \<or> map_of (ws_messages s) k = None
      then Inl (KeyError k) else Inr ()) \<and>
   active_connections (fst (disconnect s k)) = dict_del k (active_connections s) \<and>
   ws_messages (fst (disconnect s k)) =
     (if map_of (active_connections s) k = None then ws_messages s
      else dict_del k (ws_messages s)) \<and>
   log_lines (fst (disconnect s k)) = log_lines s \<and>
   snd (websocket_endpoint_try s w e) =
     (if map_of (active_connections s) (KWs w) = None \<or> map_of (ws_messages s) (KWs w) = None
      then Inl (KeyError (KWs w)) else snd (websocket_endpoint_except s w e))"
proof -
  have "log_lines (fst (disconnect s k)) = log_lines s"
    by (simp add: disconnect_def Let_def split: option.splits)
  then show ?thesis
    by (simp add: disconnect_result disconnect_registry disconnect_queues try_result
        except_registry except_ws_messages)
qed

section \<open>The error report\<close>

text \<open>
  C9, as the claim states it, fails. With WebSocket 0 registered under \<^verbatim>\<open>"user"\<close> and
  the loops ended by a \<^verbatim>\<open>ValueError\<close>, the handler's \<^verbatim>\<open>send_personal_message\<close> raises
  \<^verbatim>\<open>KeyError\<close> and the client receives nothing. With the registry keyed by the
  WebSocket and its transport closed, the write fails, and the failure is not swallowed:
  the teardown returns and the endpoint raises the write's exception.
\<close>

theorem error_report_counterexample:
  "snd (websocket_endpoint_except state_user 0 (OtherError ''ValueError'' ''boom'')) =
     Inl (KeyError (KWs 0)) \<and>
   outbox (sockets (fst (websocket_endpoint_try state_user 0 (OtherError ''ValueError'' ''boom''))) 0)
     = [] \<and>
   snd (websocket_endpoint_try state_by_socket 0 (OtherError ''ValueError'' ''boom'')) =
     Inl TransportError \<and>
   outbox
     (sockets (fst (websocket_endpoint_try state_by_socket 0 (OtherError ''ValueError'' ''boom''))) 0)
     = []"
  by (simp add: try_state try_result disconnect_sockets disconnect_result
      websocket_endpoint_except_def send_personal_message_def send_json_def log_error_def
      state_user_def state_fresh_def state_by_socket_def open_socket_def closed_socket_def)

text \<open>
  C9, amended. When the loops end by an exception other than \<^verbatim>\<open>WebSocketDisconnect\<close>
  that \<^verbatim>\<open>except Exception\<close> catches, the handler logs it and makes one attempt, before
  the teardown, to send the message with the fields type, name and description through
  \<^verbatim>\<open>send_personal_message\<close>. When the attempt succeeds, the message is written once,
  last, to the connection that the lookup found. When it fails (the lookup raises
  \<^verbatim>\<open>KeyError\<close>, or the write fails) nothing is written and the failure is not swallowed:
  the handler raises it, the teardown runs all the same and writes nothing, and the
  endpoint ends with an exception.
\<close>

theorem error_report_one_attempt_not_swallowed:
  assumes "e \<noteq> WebSocketDisconnect" and "is_Exception e"
  shows
    "snd (websocket_endpoint_except s w e) =
       (case map_of (active_connections s) (KWs w) of
          None \<Rightarrow> Inl (KeyError (KWs w))
        | Some c \<Rightarrow> if is_closed (sockets s c) then Inl TransportError else Inr ()) \<and>
     outbox (sockets (fst (websocket_endpoint_except s w e)) v) =
       (case map_of (active_connections s) (KWs w) of
          None \<Rightarrow> outbox (sockets s v)
        | Some c \<Rightarrow>
            if \<not> is_closed (sockets s c) \<and> v = c
            then outbox (sockets s v) @ [error_message e] else outbox (sockets s v)) \<and>
     log_lines (fst (websocket_endpoint_except s w e)) = log_lines s @ [Error e, Traceback e] \<and>
     sockets (fst (websocket_endpoint_try s w e)) =
       sockets (fst (websocket_endpoint_except s w e)) \<and>
     (\<forall>x. snd (websocket_endpoint_except s w e) = Inl x \<longrightarrow>
          (\<exists>y. snd (websocket_endpoint_try s w e) = Inl y))"
proof -
  have handler: "websocket_endpoint_except s w e =
      send_personal_message (log_error s e) (error_message e) (KWs w)"
    using assms by (simp add: websocket_endpoint_except_def)
  have result: "snd (websocket_endpoint_except s w e) =
       (case map_of (active_connections s) (KWs w) of
          None \<Rightarrow> Inl (KeyError (KWs w))
        | Some c \<Rightarrow> if is_closed (sockets s c) then Inl TransportError else Inr ())"
    by (simp add: handler send_personal_message_def send_json_def log_error_def
        split: option.splits)
  have written: "outbox (sockets (fst (websocket_endpoint_except s w e)) v) =
       (case map_of (active_connections s) (KWs w) of
          None \<Rightarrow> outbox (sockets s v)
        | Some c \<Rightarrow>
            if \<not> is_closed (sockets s c) \<and> v = c
            then outbox (sockets s v) @ [error_message e] else outbox (sockets s v))"
    by (simp add: handler send_personal_message_def send_json_def log_error_def
        split: option.splits)
  have logged: "log_lines (fst (websocket_endpoint_except s w e)) =
      log_lines s @ [Error e, Traceback e]"
    by (simp add: handler send_personal_message_def send_json_def log_error_def
        split: option.splits)
  have after: "sockets (fst (websocket_endpoint_try s w e)) =
      sockets (fst (websocket_endpoint_except s w e))"
    by (simp add: try_state disconnect_sockets)
  have raised: "\<forall>x. snd (websocket_endpoint_except s w e) = Inl x \<longrightarrow>
      (\<exists>y. snd (websocket_endpoint_try s w e) = Inl y)"
    by (auto simp: try_result split: sum.splits)
  from result written logged after raised show ?thesis
    by blast
qed

theorem error_report_one_attempt_not_swallowed_witness:
  "OtherError ''ValueError'' ''boom'' \<noteq> WebSocketDisconnect \<and>
   is_Exception (OtherError ''ValueError'' ''boom'') \<and>
   snd (websocket_endpoint_except state_user 0 (OtherError ''ValueError'' ''boom'')) =
     Inl (KeyError (KWs 0)) \<and>
   outbox (sockets (fst (websocket_endpoint_except state_user 0 (OtherError ''ValueError'' ''boom''))) 0)
     = [] \<and>
   log_lines (fst (websocket_endpoint_except state_user 0 (OtherError ''ValueError'' ''boom''))) =
     [Error (OtherError ''ValueError'' ''boom''), Traceback (OtherError ''ValueError'' ''boom'')] \<and>
   (\<exists>y. snd (websocket_endpoint_try state_user 0 (OtherError ''ValueError'' ''boom'')) = Inl y)"
proof -
  have reg: "map_of (active_connections state_user) (KWs 0) = None"
    by (simp add: state_user_def state_fresh_def)
  have box: "outbox (sockets state_user 0) = []"
    by (simp add: state_user_def state_fresh_def open_socket_def)
  have lg: "log_lines state_user = []"
    by (simp add: state_user_def state_fresh_def)
  show ?thesis
    using error_report_one_attempt_not_swallowed
      [of "OtherError ''ValueError'' ''boom''" state_user 0 0]
    by (simp add: reg box lg)
qed

section \<open>The loops under a registry keyed by user ids\<close>

lemma receive_json_registry:
  "active_connections (fst (receive_json s w)) = active_connections s"
  by (simp add: receive_json_def split: list.splits)

lemma receive_json_outbox: "outbox (sockets (fst (receive_json s w)) v) = outbox (sockets s v)"
  by (simp add: receive_json_def split: list.splits)

text \<open>
  When the WebSocket is no key of the registry, the first reply of the inbound loop ends
  it: the loop runs one round at most.
\<close>

lemma receive_message_loop_one_round:
  assumes "map_of (active_connections s) (KWs ws) = None"
  shows "receive_message_loop ccat ws s =
     (case receive_json s ws of
        (s1, Inl e) \<Rightarrow> (s1, e)
      | (s1, Inr user_message) \<Rightarrow>
          (case ccat user_message of
             Inl e \<Rightarrow> (s1, e)
           | Inr cat_message \<Rightarrow> (s1, KeyError (KWs ws))))"
proof -
  have "map_of (active_connections (fst (receive_json s ws))) (KWs ws) = None"
    using assms by (simp add: receive_json_registry)
  then show ?thesis
    by (subst receive_message_loop.simps)
       (auto simp: send_personal_message_absent split: prod.splits sum.splits)
qed

lemma check_messages_one_round:
  assumes "map_of (active_connections s) user_id = Some w"
    and "map_of (active_connections s) (KWs w) = None"
  shows "check_messages s user_id =
     (case map_of (ws_messages s) user_id of
        None \<Rightarrow> (s, Raised (KeyError user_id))
      | Some [] \<Rightarrow> (s, Blocked)
      | Some (notification # q) \<Rightarrow>
          (s\<lparr>ws_messages := dict_put user_id q (ws_messages s)\<rparr>, Raised (KeyError (KWs w))))"
  using assms
  by (subst check_messages.simps)
     (simp add: send_personal_message_absent Let_def split: option.splits list.splits)

text \<open>
  C2, at the failing input. WebSocket 0 is registered under \<^verbatim>\<open>"user"\<close> and its client
  sends two messages. \<^verbatim>\<open>receive_message\<close> reads the first, obtains the agent's reply and
  raises \<^verbatim>\<open>KeyError\<close> in \<^verbatim>\<open>send_personal_message(cat_message, ws)\<close>: the client receives
  no reply, and the second message is never read. The claim says two replies, in order.
\<close>

theorem receive_message_sends_no_reply:
  "snd (receive_message hello_agent state_user (KStr ''user'')) = KeyError (KWs 0) \<and>
   outbox (sockets (fst (receive_message hello_agent state_user (KStr ''user''))) 0) = [] \<and>
   inbox (sockets (fst (receive_message hello_agent state_user (KStr ''user''))) 0) = [ping]"
proof -
  have reg: "map_of (active_connections state_user) (KWs 0) = None"
    by (simp add: state_user_def state_fresh_def)
  have run: "receive_message hello_agent state_user (KStr ''user'') =
      receive_message_loop hello_agent 0 state_user"
    by (simp add: receive_message_def state_user_def state_fresh_def)
  show ?thesis
    unfolding run receive_message_loop_one_round [OF reg]
    by (simp add: receive_json_def hello_agent_def state_user_def state_fresh_def open_socket_def)
qed

text \<open>
  C3, at the failing input. WebSocket 0 is registered under \<^verbatim>\<open>"user"\<close>, whose queue holds
  two notifications. \<^verbatim>\<open>check_messages\<close> takes the first out of the queue and raises
  \<^verbatim>\<open>KeyError\<close> in \<^verbatim>\<open>send_personal_message\<close>, called with the WebSocket as the key: the
  client receives nothing and the first notification is lost. The claim says both are
  received, in order.
\<close>

theorem check_messages_drops_notification:
  "snd (check_messages state_user (KStr ''user'')) = Raised (KeyError (KWs 0)) \<and>
   outbox (sockets (fst (check_messages state_user (KStr ''user''))) 0) = [] \<and>
   ws_messages (fst (check_messages state_user (KStr ''user''))) = [(KStr ''user'', [hi])]"
proof -
  have reg: "map_of (active_connections state_user) (KStr ''user'') = Some 0"
    "map_of (active_connections state_user) (KWs 0) = None"
    by (simp_all add: state_user_def state_fresh_def)
  show ?thesis
    unfolding check_messages_one_round [OF reg]
    by (simp add: state_user_def state_fresh_def open_socket_def dict_put_def)
qed

section \<open>The endpoint's teardown\<close>

text \<open>
  C1, at the failing inputs. A client connects to a fresh process: \<^verbatim>\<open>connect\<close> raises
  before the \<^verbatim>\<open>try\<close> statement is entered, so the endpoint ends without any teardown,
  whatever the loops would have done. And when the \<^verbatim>\<open>try\<close> statement is entered with
  WebSocket 0 registered under \<^verbatim>\<open>"user"\<close> and the client disconnects, the \<^verbatim>\<open>finally\<close>
  clause calls \<^verbatim>\<open>disconnect\<close> with the WebSocket as the key: it raises \<^verbatim>\<open>KeyError\<close>, and
  the registry entry and the queue of \<^verbatim>\<open>"user"\<close> stay. The claim says that the teardown
  removes both, once, on every exit path.
\<close>

theorem endpoint_teardown_removes_nothing:
  "websocket_endpoint gather state_fresh 0 (KStr ''user'') = connect state_fresh 0 (KStr ''user'') \<and>
   snd (websocket_endpoint gather state_fresh 0 (KStr ''user'')) = Inl (KeyError (KStr ''user'')) \<and>
   ws_messages (fst (websocket_endpoint gather state_fresh 0 (KStr ''user''))) =
     [(KStr ''user'', [ping, hi])] \<and>
   snd (websocket_endpoint_try state_user 0 WebSocketDisconnect) = Inl (KeyError (KWs 0)) \<and>
   active_connections (fst (websocket_endpoint_try state_user 0 WebSocketDisconnect)) =
     [(KStr ''user'', 0)] \<and>
   ws_messages (fst (websocket_endpoint_try state_user 0 WebSocketDisconnect)) =
     [(KStr ''user'', [ping, hi])]"
  by (simp add: websocket_endpoint_def connect_def accept_def try_state try_result
      disconnect_result disconnect_registry disconnect_queues except_registry except_ws_messages
      dict_del_def state_user_def state_fresh_def)

section \<open>Further properties of the module\<close>

text \<open>
  X1. The endpoint never reaches its loops: \<^verbatim>\<open>connect\<close> raises in every state, before the
  \<^verbatim>\<open>try\<close> statement, so the endpoint does what \<^verbatim>\<open>connect\<close> does and no more.
\<close>

theorem endpoint_is_connect:
  "websocket_endpoint gather s websocket user_id = connect s websocket user_id"
  by (simp add: websocket_endpoint_def connect_def Let_def split: option.splits)

text \<open>
  X2. With a registry whose keys are user ids, as it is declared, \<^verbatim>\<open>receive_message\<close>
  writes
  to no client, whatever the agent answers.
\<close>

theorem receive_message_writes_nothing:
  assumes "str_keyed (active_connections s)"
  shows "outbox (sockets (fst (receive_message ccat s user_id)) v) = outbox (sockets s v)"
proof (cases "map_of (active_connections s) user_id")
  case None
  then show ?thesis by (simp add: receive_message_def)
next
  case (Some ws)
  have reg: "map_of (active_connections s) (KWs ws) = None"
    using assms by (rule str_keyed_lookup)
  have "outbox (sockets (fst (receive_message_loop ccat ws s)) v) =
      outbox (sockets (fst (receive_json s ws)) v)"
    unfolding receive_message_loop_one_round [OF reg]
    by (simp split: prod.splits sum.splits)
  then show ?thesis
    using Some by (simp add: receive_message_def receive_json_outbox)
qed

theorem receive_message_writes_nothing_witness:
  "str_keyed (active_connections state_user) \<and>
   outbox (sockets (fst (receive_message hello_agent state_user (KStr ''user''))) 0) = []"
proof -
  have keyed: "str_keyed (active_connections state_user)"
    by (simp add: str_keyed_def state_user_def state_fresh_def)
  have "outbox (sockets state_user 0) = []"
    by (simp add: state_user_def state_fresh_def open_socket_def)
  then show ?thesis
    using keyed receive_message_writes_nothing [OF keyed, of hello_agent "KStr ''user''" 0]
    by simp
qed

text \<open>
  X3. With such a registry \<^verbatim>\<open>check_messages\<close> writes to no client either, and never goes
  beyond the first notification of the queue.
\<close>

theorem check_messages_writes_nothing:
  assumes "str_keyed (active_connections s)"
  shows "outbox (sockets (fst (check_messages s user_id)) v) = outbox (sockets s v) \<and>
         queue_length s user_id \<le> Suc (queue_length (fst (check_messages s user_id)) user_id)"
proof -
  have "\<And>w. map_of (active_connections s) (KWs w) = None"
    using assms by (rule str_keyed_lookup)
  then show ?thesis
    by (subst (1 2) check_messages.simps)
       (simp add: send_personal_message_absent Let_def queue_length_def map_of_dict_put
          split: option.splits list.splits)
qed

theorem check_messages_writes_nothing_witness:
  "str_keyed (active_connections state_user) \<and>
   outbox (sockets (fst (check_messages state_user (KStr ''user''))) 0) = [] \<and>
   queue_length state_user (KStr ''user'') = 2"
proof -
  have keyed: "str_keyed (active_connections state_user)"
    by (simp add: str_keyed_def state_user_def state_fresh_def)
  have "outbox (sockets state_user 0) = []"
    by (simp add: state_user_def state_fresh_def open_socket_def)
  moreover have "queue_length state_user (KStr ''user'') = 2"
    by (simp add: queue_length_def state_user_def state_fresh_def)
  ultimately show ?thesis
    using keyed check_messages_writes_nothing [OF keyed, of "KStr ''user''" 0]
    by simp
qed

text \<open>
  X4. With such a registry the \<^verbatim>\<open>finally\<close> clause, which calls \<^verbatim>\<open>disconnect\<close> with the
  WebSocket as the key, raises \<^verbatim>\<open>KeyError\<close> on every exit of the \<^verbatim>\<open>try\<close> statement and
  leaves the registry and the queues as they were.
\<close>

theorem finally_misses_the_identity:
  assumes "str_keyed (active_connections s)"
  shows "snd (websocket_endpoint_try s w e) = Inl (KeyError (KWs w)) \<and>
         active_connections (fst (websocket_endpoint_try s w e)) = active_connections s \<and>
         ws_messages (fst (websocket_endpoint_try s w e)) = ws_messages s"
proof -
  have "map_of (active_connections s) (KWs w) = None"
    using assms by (rule str_keyed_lookup)
  then show ?thesis
    by (simp add: try_state try_result disconnect_result disconnect_registry disconnect_queues
        except_registry except_ws_messages dict_del_absent)
qed

theorem finally_misses_the_identity_witness:
  "str_keyed (active_connections state_user) \<and>
   snd (websocket_endpoint_try state_user 0 CancelledError) = Inl (KeyError (KWs 0)) \<and>
   active_connections (fst (websocket_endpoint_try state_user 0 CancelledError)) =
     [(KStr ''user'', 0)]"
proof -
  have keyed: "str_keyed (active_connections state_user)"
    by (simp add: str_keyed_def state_user_def state_fresh_def)
  have "active_connections state_user = [(KStr ''user'', 0)]"
    by (simp add: state_user_def state_fresh_def)
  then show ?thesis
    using keyed finally_misses_the_identity [OF keyed, of 0 CancelledError]
    by simp
qed

text \<open>
  X5. A clean disconnect is logged and nothing is written to any client; a cancellation is
  neither logged nor reported, it stays pending for the \<^verbatim>\<open>finally\<close> clause.
\<close>

theorem disconnect_and_cancellation_send_nothing:
  "websocket_endpoint_except s w WebSocketDisconnect =
     (s\<lparr>log_lines := log_lines s @ [Info ''WebSocket connection closed'']\<rparr>, Inr ()) \<and>
   websocket_endpoint_except s w CancelledError = (s, Inl CancelledError)"
  by (simp add: websocket_endpoint_except_def log_info_def)

end
